theory Spec2Isabelle
  imports Main
begin

section \<open>The SIGMA attendance bot (bot.py)\<close>

text \<open>
  The bot keeps one SQLite table \<open>users\<close> and reacts to three slash commands and to the
  member-join event. The table is modelled as the list of its rows, every handler as a
  function from the table (and the data of the event) to the new table and the message it
  sends. Python's \<open>int\<close> is \<open>int\<close>; a \<open>TEXT\<close> column that may be \<open>NULL\<close> is a
  \<open>string option\<close>; text is the list of its UTF-8 bytes, so the Korean labels and the
  emoji of the source appear as byte lists. SQLite keeps an \<open>INTEGER\<close> in 64 bits; the
  model leaves that bound out, as a balance grows by 100000 a day at most.
\<close>

subsection \<open>Constants\<close>

definition DAILY_REWARD :: int where
  "DAILY_REWARD = 100000"

definition WELCOME_CHANNEL_ID :: int where
  "WELCOME_CHANNEL_ID = 0"

subsection \<open>Rows and the table (init_db, ensure_user, get_user)\<close>

text \<open>
  The columns of \<open>CREATE TABLE users\<close>: \<open>user_id INTEGER PRIMARY KEY\<close>,
  \<open>balance INTEGER NOT NULL DEFAULT 0\<close>, \<open>total_checkins INTEGER NOT NULL DEFAULT 0\<close>,
  \<open>last_checkin TEXT\<close>, \<open>joined_at TEXT\<close>.
\<close>

record user_row =
  user_id :: int
  balance :: int
  total_checkins :: int
  last_checkin :: "string option"
  joined_at :: "string option"

type_synonym connection = "user_row list"

text \<open>The row that \<open>INSERT INTO users(user_id) VALUES (?)\<close> creates: the column defaults.\<close>

definition new_row :: "int \<Rightarrow> user_row" where
  "new_row uid =
     \<lparr>user_id = uid, balance = 0, total_checkins = 0, last_checkin = None, joined_at = None\<rparr>"

text \<open>\<open>SELECT * FROM users WHERE user_id=?\<close> followed by \<open>fetchone()\<close>.\<close>

definition select_user :: "connection \<Rightarrow> int \<Rightarrow> user_row option" where
  "select_user conn uid = find (\<lambda>r. user_id r = uid) conn"

text \<open>
  \<open>INSERT OR IGNORE INTO users(user_id) VALUES (?)\<close>: the primary key rejects a second row
  with the same \<open>user_id\<close>, and \<open>OR IGNORE\<close> turns the rejection into a no-op.
\<close>

definition ensure_user :: "connection \<Rightarrow> int \<Rightarrow> connection" where
  "ensure_user conn uid =
     (case select_user conn uid of
        None \<Rightarrow> conn @ [new_row uid]
      | Some _ \<Rightarrow> conn)"

definition get_user :: "connection \<Rightarrow> int \<Rightarrow> connection \<times> user_row option" where
  "get_user conn uid =
     (let conn' = ensure_user conn uid
      in (conn', select_user conn' uid))"

text \<open>\<open>UPDATE users SET joined_at=? WHERE user_id=?\<close>\<close>

definition update_joined_at :: "connection \<Rightarrow> string \<Rightarrow> int \<Rightarrow> connection" where
  "update_joined_at conn j uid =
     map (\<lambda>r. if user_id r = uid then r\<lparr>joined_at := Some j\<rparr> else r) conn"

text \<open>\<open>UPDATE users SET balance=?, total_checkins=?, last_checkin=? WHERE user_id=?\<close>\<close>

definition update_checkin :: "connection \<Rightarrow> int \<Rightarrow> int \<Rightarrow> string \<Rightarrow> int \<Rightarrow> connection" where
  "update_checkin conn b t d uid =
     map (\<lambda>r. if user_id r = uid
               then r\<lparr>balance := b, total_checkins := t, last_checkin := Some d\<rparr>
               else r) conn"

subsection \<open>Text: numbers, dates, format_won\<close>

definition digit_char :: "nat \<Rightarrow> char" where
  "digit_char d = ''0123456789'' ! (d mod 10)"

fun str_nat :: "nat \<Rightarrow> string" where
  "str_nat n = (if n < 10 then [digit_char n] else str_nat (n div 10) @ [digit_char (n mod 10)])"

declare str_nat.simps [simp del]

text \<open>Python's \<open>str(n)\<close> and \<open>f"{n}"\<close> of an integer.\<close>

definition str_int :: "int \<Rightarrow> string" where
  "str_int i = (if i < 0 then ''-'' @ str_nat (nat (- i)) else str_nat (nat i))"

text \<open>The \<open>,\<close> format option: a comma before every group of three digits, from the right.\<close>

fun commas_rev :: "string \<Rightarrow> string" where
  "commas_rev (a # b # c # d # ds) = a # b # c # CHR '','' # commas_rev (d # ds)"
| "commas_rev ds = ds"

definition commas :: "string \<Rightarrow> string" where
  "commas ds = rev (commas_rev (rev ds))"

definition won_sign :: string where
  "won_sign = [CHR 0xE2, CHR 0x82, CHR 0xA9]"

text \<open>\<open>format_won(n)\<close> is \<open>f"{n:,}"\<close> followed by the won sign.\<close>

definition format_won :: "int \<Rightarrow> string" where
  "format_won n =
     (if n < 0 then ''-'' @ commas (str_nat (nat (- n))) else commas (str_nat (nat n))) @ won_sign"

text \<open>
  A calendar date, and its text \<open>YYYY-MM-DD\<close>: what \<open>date.today().isoformat()\<close> produces,
  and \<open>member.joined_at.strftime("%Y-%m-%d")\<close> too for a year of four digits (of the join
  time only the date is printed).
\<close>

datatype date = Date (year: nat) (month: nat) (day: nat)

definition zero_pad :: "nat \<Rightarrow> string \<Rightarrow> string" where
  "zero_pad w s = replicate (w - length s) CHR ''0'' @ s"

definition isoformat :: "date \<Rightarrow> string" where
  "isoformat d =
     zero_pad 4 (str_nat (year d)) @ ''-'' @ zero_pad 2 (str_nat (month d)) @ ''-'' @
     zero_pad 2 (str_nat (day d))"

subsection \<open>Python truth values of a nullable text\<close>

text \<open>\<open>not v\<close> holds of \<open>None\<close> and of the empty text; \<open>v or d\<close> is \<open>d\<close> in these two cases.\<close>

definition py_not :: "string option \<Rightarrow> bool" where
  "py_not v = (case v of None \<Rightarrow> True | Some s \<Rightarrow> s = [])"

definition py_or :: "string option \<Rightarrow> string \<Rightarrow> string" where
  "py_or v d = (if py_not v then d else (case v of None \<Rightarrow> d | Some s \<Rightarrow> s))"

subsection \<open>What the platform hands to a handler, and what a handler sends\<close>

record discord_user =
  u_id :: int
  u_str :: string
  u_avatar_url :: string

record guild =
  channels :: "int list"
  system_channel :: "int option"

record member = discord_user +
  m_bot :: bool
  m_joined_at :: "date option"
  m_mention :: string
  m_guild :: guild

record interaction =
  user :: discord_user

definition get_channel :: "guild \<Rightarrow> int \<Rightarrow> int option" where
  "get_channel g cid = (if cid \<in> set (channels g) then Some cid else None)"

record embed =
  title :: string
  description :: string
  author :: "(string \<times> string) option"
  thumbnail :: "string option"
  e_fields :: "(string \<times> string \<times> bool) list"

definition Embed :: "string \<Rightarrow> string \<Rightarrow> embed" where
  "Embed t d = \<lparr>title = t, description = d, author = None, thumbnail = None, e_fields = []\<rparr>"

definition set_author :: "embed \<Rightarrow> string \<Rightarrow> string \<Rightarrow> embed" where
  "set_author e n icon = e\<lparr>author := Some (n, icon)\<rparr>"

definition set_thumbnail :: "embed \<Rightarrow> string \<Rightarrow> embed" where
  "set_thumbnail e url = e\<lparr>thumbnail := Some url\<rparr>"

definition add_field :: "embed \<Rightarrow> string \<Rightarrow> string \<Rightarrow> bool \<Rightarrow> embed" where
  "add_field e n v inl = e\<lparr>e_fields := e_fields e @ [(n, v, inl)]\<rparr>"

text \<open>A message as \<open>send_message\<close> and \<open>channel.send\<close> take it.\<close>

record message =
  content :: "string option"
  embed_of :: "embed option"
  ephemeral :: bool

datatype error = TypeError | RuntimeError string

text \<open>
  What a handler leaves behind: the table after it, and either the exception it raised or
  what it sent. An exception inside a \<open>with db() as conn\<close> block rolls the block's writes
  back; leaving the block otherwise commits them.
\<close>

type_synonym 'a outcome = "connection \<times> (error + 'a)"

subsection \<open>The texts of the source, as UTF-8 bytes\<close>

definition unknown_date :: string where
  "unknown_date = [CHR 0xEC, CHR 0x95, CHR 0x8C] @ '' '' @ [CHR 0xEC, CHR 0x88, CHR 0x98] @ '' '' @ [CHR 0xEC, CHR 0x97, CHR 0x86, CHR 0xEC, CHR 0x9D, CHR 0x8C]"

definition times_suffix :: string where
  "times_suffix = [CHR 0xED, CHR 0x9A, CHR 0x8C]"

definition welcome_title :: string where
  "welcome_title = [CHR 0xF0, CHR 0x9F, CHR 0x91, CHR 0x8B] @ '' '' @ [CHR 0xEC, CHR 0x83, CHR 0x88] @ '' '' @ [CHR 0xEB, CHR 0xA9, CHR 0xA4, CHR 0xEB, CHR 0xB2, CHR 0x84] @ '' '' @ [CHR 0xEC, CHR 0x9E, CHR 0x85, CHR 0xEC, CHR 0x9E, CHR 0xA5] @ ''!''"

definition welcome_desc_tail :: string where
  "welcome_desc_tail = '' '' @ [CHR 0xEB, CHR 0x8B, CHR 0x98] @ '' '' @ [CHR 0xED, CHR 0x99, CHR 0x98, CHR 0xEC, CHR 0x98, CHR 0x81, CHR 0xED, CHR 0x95, CHR 0xA9, CHR 0xEB, CHR 0x8B, CHR 0x88, CHR 0xEB, CHR 0x8B, CHR 0xA4] @ ''!'' @ [CHR 0x0A] @ ''SIGMA '' @ [CHR 0xED, CHR 0x94, CHR 0x84, CHR 0xEB, CHR 0xA1, CHR 0x9C, CHR 0xED, CHR 0x95, CHR 0x84, CHR 0xEC, CHR 0x9D, CHR 0xB4] @ '' '' @ [CHR 0xEC, CHR 0x9E, CHR 0x90, CHR 0xEB, CHR 0x8F, CHR 0x99] @ '' '' @ [CHR 0xEC, CHR 0x83, CHR 0x9D, CHR 0xEC, CHR 0x84, CHR 0xB1, CHR 0xEB, CHR 0x90, CHR 0x98, CHR 0xEC, CHR 0x97, CHR 0x88, CHR 0xEC, CHR 0x8A, CHR 0xB5, CHR 0xEB, CHR 0x8B, CHR 0x88, CHR 0xEB, CHR 0x8B, CHR 0xA4] @ ''.''"

definition lbl_user_id :: string where
  "lbl_user_id = [CHR 0xF0, CHR 0x9F, CHR 0x86, CHR 0x94] @ '' USER ID''"

definition lbl_server_joined :: string where
  "lbl_server_joined = [CHR 0xF0, CHR 0x9F, CHR 0x93, CHR 0x85] @ '' '' @ [CHR 0xEC, CHR 0x84, CHR 0x9C, CHR 0xEB, CHR 0xB2, CHR 0x84] @ '' '' @ [CHR 0xEC, CHR 0x9E, CHR 0x85, CHR 0xEC, CHR 0x9E, CHR 0xA5, CHR 0xEC, CHR 0x9D, CHR 0xBC]"

definition lbl_balance_bag :: string where
  "lbl_balance_bag = [CHR 0xF0, CHR 0x9F, CHR 0x92, CHR 0xB0] @ '' '' @ [CHR 0xED, CHR 0x98, CHR 0x84, CHR 0xEC, CHR 0x9E, CHR 0xAC] @ '' '' @ [CHR 0xEC, CHR 0x9E, CHR 0x94, CHR 0xEA, CHR 0xB3, CHR 0xA0]"

definition lbl_total_tick :: string where
  "lbl_total_tick = [CHR 0xE2, CHR 0x9C, CHR 0x85] @ '' '' @ [CHR 0xEC, CHR 0xB4, CHR 0x9D] @ '' '' @ [CHR 0xEC, CHR 0xB6, CHR 0x9C, CHR 0xEC, CHR 0x84, CHR 0x9D]"

definition already_title :: string where
  "already_title = [CHR 0xE2, CHR 0x9C, CHR 0x85] @ '' '' @ [CHR 0xEC, CHR 0x9D, CHR 0xB4, CHR 0xEB, CHR 0xAF, CHR 0xB8] @ '' '' @ [CHR 0xEC, CHR 0xB6, CHR 0x9C, CHR 0xEC, CHR 0x84, CHR 0x9D, CHR 0xED, CHR 0x96, CHR 0x88, CHR 0xEC, CHR 0x96, CHR 0xB4, CHR 0xEC, CHR 0x9A, CHR 0x94]"

definition already_desc :: string where
  "already_desc = [CHR 0xEC, CHR 0x98, CHR 0xA4, CHR 0xEB, CHR 0x8A, CHR 0x98, CHR 0xEC, CHR 0x9D, CHR 0x80] @ '' '' @ [CHR 0xEC, CHR 0x9D, CHR 0xB4, CHR 0xEB, CHR 0xAF, CHR 0xB8] @ '' '' @ [CHR 0xEC, CHR 0xB6, CHR 0x9C, CHR 0xEC, CHR 0x84, CHR 0x9D] @ '' '' @ [CHR 0xEB, CHR 0xB3, CHR 0xB4, CHR 0xEC, CHR 0x83, CHR 0x81, CHR 0xEC, CHR 0x9D, CHR 0x84] @ '' '' @ [CHR 0xEB, CHR 0xB0, CHR 0x9B, CHR 0xEC, CHR 0x95, CHR 0x98, CHR 0xEC, CHR 0x8A, CHR 0xB5, CHR 0xEB, CHR 0x8B, CHR 0x88, CHR 0xEB, CHR 0x8B, CHR 0xA4] @ ''.''"

definition lbl_balance :: string where
  "lbl_balance = [CHR 0xED, CHR 0x98, CHR 0x84, CHR 0xEC, CHR 0x9E, CHR 0xAC] @ '' '' @ [CHR 0xEC, CHR 0x9E, CHR 0x94, CHR 0xEA, CHR 0xB3, CHR 0xA0]"

definition done_title :: string where
  "done_title = [CHR 0xE2, CHR 0x9C, CHR 0x85] @ '' '' @ [CHR 0xEC, CHR 0xB6, CHR 0x9C, CHR 0xEC, CHR 0x84, CHR 0x9D] @ '' '' @ [CHR 0xEC, CHR 0x99, CHR 0x84, CHR 0xEB, CHR 0xA3, CHR 0x8C] @ ''!''"

definition done_desc_tail :: string where
  "done_desc_tail = ''** '' @ [CHR 0xEC, CHR 0xA7, CHR 0x80, CHR 0xEA, CHR 0xB8, CHR 0x89, CHR 0xEB, CHR 0x90, CHR 0x98, CHR 0xEC, CHR 0x97, CHR 0x88, CHR 0xEC, CHR 0x8A, CHR 0xB5, CHR 0xEB, CHR 0x8B, CHR 0x88, CHR 0xEB, CHR 0x8B, CHR 0xA4] @ ''.''"

definition lbl_total :: string where
  "lbl_total = [CHR 0xEC, CHR 0xB4, CHR 0x9D] @ '' '' @ [CHR 0xEC, CHR 0xB6, CHR 0x9C, CHR 0xEC, CHR 0x84, CHR 0x9D]"

definition profile_desc :: string where
  "profile_desc = [CHR 0xEC, CHR 0x8B, CHR 0x9C, CHR 0xEA, CHR 0xB7, CHR 0xB8, CHR 0xEB, CHR 0xA7, CHR 0x88] @ '' '' @ [CHR 0xEB, CHR 0xB4, CHR 0x87, CHR 0xEA, CHR 0xB3, CHR 0xBC] @ '' '' @ [CHR 0xED, CHR 0x95, CHR 0xA8, CHR 0xEA, CHR 0xBB, CHR 0x98, CHR 0xED, CHR 0x95, CHR 0x98, CHR 0xEB, CHR 0x8A, CHR 0x94] @ '' Play Game.''"

definition lbl_total_calendar :: string where
  "lbl_total_calendar = [CHR 0xF0, CHR 0x9F, CHR 0x93, CHR 0x85] @ '' '' @ [CHR 0xEC, CHR 0xB4, CHR 0x9D] @ '' '' @ [CHR 0xEC, CHR 0xB6, CHR 0x9C, CHR 0xEC, CHR 0x84, CHR 0x9D]"

definition lbl_last_checkin :: string where
  "lbl_last_checkin = [CHR 0xF0, CHR 0x9F, CHR 0x95, CHR 0x92] @ '' '' @ [CHR 0xEB, CHR 0xA7, CHR 0x88, CHR 0xEC, CHR 0xA7, CHR 0x80, CHR 0xEB, CHR 0xA7, CHR 0x89] @ '' '' @ [CHR 0xEC, CHR 0xB6, CHR 0x9C, CHR 0xEC, CHR 0x84, CHR 0x9D]"

definition none_text :: string where
  "none_text = [CHR 0xEC, CHR 0x97, CHR 0x86, CHR 0xEC, CHR 0x9D, CHR 0x8C]"

definition lbl_joined_inbox :: string where
  "lbl_joined_inbox = [CHR 0xF0, CHR 0x9F, CHR 0x93, CHR 0xA5] @ '' '' @ [CHR 0xEC, CHR 0x84, CHR 0x9C, CHR 0xEB, CHR 0xB2, CHR 0x84] @ '' '' @ [CHR 0xEC, CHR 0x9E, CHR 0x85, CHR 0xEC, CHR 0x9E, CHR 0xA5, CHR 0xEC, CHR 0x9D, CHR 0xBC]"

definition no_record_text :: string where
  "no_record_text = [CHR 0xEA, CHR 0xB8, CHR 0xB0, CHR 0xEB, CHR 0xA1, CHR 0x9D] @ '' '' @ [CHR 0xEC, CHR 0x97, CHR 0x86, CHR 0xEC, CHR 0x9D, CHR 0x8C]"

definition pong_text :: string where
  "pong_text = ''pong '' @ [CHR 0xF0, CHR 0x9F, CHR 0x97, CHR 0xBF]"

definition token_missing_text :: string where
  "token_missing_text = ''DISCORD_TOKEN'' @ [CHR 0xEC, CHR 0x9D, CHR 0xB4] @ '' .env'' @ [CHR 0xEC, CHR 0x97, CHR 0x90] @ '' '' @ [CHR 0xEC, CHR 0x97, CHR 0x86, CHR 0xEC, CHR 0x8A, CHR 0xB5, CHR 0xEB, CHR 0x8B, CHR 0x88, CHR 0xEB, CHR 0x8B, CHR 0xA4] @ ''.''"

subsection \<open>on_member_join\<close>

definition welcome_embed :: "member \<Rightarrow> string \<Rightarrow> user_row \<Rightarrow> embed" where
  "welcome_embed member joined_str usr =
     (let e0 = Embed welcome_title (m_mention member @ welcome_desc_tail);
          e1 = set_author e0 (u_str member) (u_avatar_url member);
          e2 = set_thumbnail e1 (u_avatar_url member);
          e3 = add_field e2 lbl_user_id (str_int (u_id member)) False;
          e4 = add_field e3 lbl_server_joined (py_or (joined_at usr) joined_str) True;
          e5 = add_field e4 lbl_balance_bag (format_won (balance usr)) True
      in add_field e5 lbl_total_tick (str_int (total_checkins usr) @ times_suffix) True)"

text \<open>
  \<open>joined_str_of\<close> is the variable \<open>joined_str\<close>: the join date as text, or the Korean for
  "unknown" when the member has none.
  The handler returns at once for a bot. Otherwise it fetches (creating if needed) the row,
  stores \<open>joined_str\<close> when \<open>not user["joined_at"]\<close>, and sends the welcome embed to the
  welcome channel, which is the guild's system channel as \<open>WELCOME_CHANNEL_ID\<close> is 0;
  without a channel it sends nothing.
\<close>

definition joined_str_of :: "member \<Rightarrow> string" where
  "joined_str_of member =
     (case m_joined_at member of Some d \<Rightarrow> isoformat d | None \<Rightarrow> unknown_date)"

definition on_member_join :: "connection \<Rightarrow> member \<Rightarrow> (int \<times> message) option outcome" where
  "on_member_join conn0 member =
     (if m_bot member then (conn0, Inr None)
      else
        let joined_str = joined_str_of member;
            (conn1, user1) = get_user conn0 (u_id member)
        in case user1 of
             None \<Rightarrow> (conn0, Inl TypeError)
           | Some row1 \<Rightarrow>
               (let (conn2, user2) =
                      (if py_not (joined_at row1)
                       then get_user (update_joined_at conn1 joined_str (u_id member)) (u_id member)
                       else (conn1, user1));
                    channel0 = (if WELCOME_CHANNEL_ID \<noteq> 0
                                then get_channel (m_guild member) WELCOME_CHANNEL_ID else None);
                    channel = (case channel0 of None \<Rightarrow> system_channel (m_guild member)
                               | Some c \<Rightarrow> Some c)
                in case channel of
                     None \<Rightarrow> (conn2, Inr None)
                   | Some ch \<Rightarrow>
                       (case user2 of
                          None \<Rightarrow> (conn2, Inl TypeError)
                        | Some usr \<Rightarrow>
                            (conn2, Inr (Some (ch,
                               \<lparr>content = None,
                                embed_of = Some (welcome_embed member joined_str usr),
                                ephemeral = False\<rparr>))))))"

subsection \<open>The check-in command\<close>

definition already_embed :: "interaction \<Rightarrow> user_row \<Rightarrow> embed" where
  "already_embed interaction usr =
     (let e0 = Embed already_title already_desc;
          e1 = add_field e0 lbl_balance (format_won (balance usr)) True
      in set_thumbnail e1 (u_avatar_url (user interaction)))"

definition granted_embed :: "interaction \<Rightarrow> int \<Rightarrow> int \<Rightarrow> embed" where
  "granted_embed interaction new_balance new_total =
     (let e0 = Embed done_title (''**'' @ format_won DAILY_REWARD @ done_desc_tail);
          e1 = add_field e0 lbl_balance (format_won new_balance) True;
          e2 = add_field e1 lbl_total (str_int new_total @ times_suffix) True
      in set_thumbnail e2 (u_avatar_url (user interaction)))"

text \<open>
  \<open>today_date\<close> is what \<open>date.today()\<close> returns when the command runs. The reply of the
  first branch is sent with \<open>ephemeral=True\<close>.
\<close>

definition checkin :: "connection \<Rightarrow> date \<Rightarrow> interaction \<Rightarrow> message outcome" where
  "checkin conn0 today_date interaction =
     (let today = isoformat today_date;
          (conn1, user1) = get_user conn0 (u_id (user interaction))
      in case user1 of
           None \<Rightarrow> (conn0, Inl TypeError)
         | Some usr \<Rightarrow>
             if last_checkin usr = Some today
             then (conn1, Inr \<lparr>content = None,
                               embed_of = Some (already_embed interaction usr),
                               ephemeral = True\<rparr>)
             else
               let new_balance = balance usr + DAILY_REWARD;
                   new_total = total_checkins usr + 1;
                   conn2 = update_checkin conn1 new_balance new_total today (u_id (user interaction))
               in (conn2, Inr \<lparr>content = None,
                                embed_of = Some (granted_embed interaction new_balance new_total),
                                ephemeral = False\<rparr>))"

subsection \<open>The profile and ping commands\<close>

definition profile_embed :: "interaction \<Rightarrow> user_row \<Rightarrow> embed" where
  "profile_embed interaction usr =
     (let e0 = Embed ''SIGMA PROFILE'' profile_desc;
          e1 = add_field e0 lbl_balance_bag (''**'' @ format_won (balance usr) @ ''**'') False;
          e2 = add_field e1 lbl_total_calendar (str_int (total_checkins usr) @ times_suffix) True;
          e3 = add_field e2 lbl_last_checkin (py_or (last_checkin usr) none_text) True;
          e4 = add_field e3 lbl_joined_inbox (py_or (joined_at usr) no_record_text) True;
          e5 = set_thumbnail e4 (u_avatar_url (user interaction))
      in set_author e5 (u_str (user interaction)) (u_avatar_url (user interaction)))"

definition profile :: "connection \<Rightarrow> interaction \<Rightarrow> message outcome" where
  "profile conn0 interaction =
     (let (conn1, user1) = get_user conn0 (u_id (user interaction))
      in case user1 of
           None \<Rightarrow> (conn1, Inl TypeError)
         | Some usr \<Rightarrow>
             (conn1, Inr \<lparr>content = None,
                          embed_of = Some (profile_embed interaction usr),
                          ephemeral = False\<rparr>))"

definition ping :: "connection \<Rightarrow> interaction \<Rightarrow> message outcome" where
  "ping conn0 interaction =
     (conn0, Inr \<lparr>content = Some pong_text, embed_of = None, ephemeral = False\<rparr>)"

subsection \<open>Runs of the bot\<close>

text \<open>
  The events the client dispatches once it runs. A check-in carries the date of the day on
  which it is handled.
\<close>

datatype event =
    MemberJoin member
  | Checkin date interaction
  | Profile interaction
  | Ping interaction

fun handle :: "connection \<Rightarrow> event \<Rightarrow> connection" where
  "handle conn (MemberJoin m) = fst (on_member_join conn m)"
| "handle conn (Checkin d i) = fst (checkin conn d i)"
| "handle conn (Profile i) = fst (profile conn i)"
| "handle conn (Ping i) = fst (ping conn i)"

definition run :: "connection \<Rightarrow> event list \<Rightarrow> connection" where
  "run conn evs = foldl handle conn evs"

subsection \<open>Start-up\<close>

text \<open>
  \<open>load_dotenv()\<close> adds the variables of the \<open>.env\<close> file to the environment without
  replacing one that is set; \<open>os.getenv\<close> reads the result. \<open>startup\<close> is the end of the
  module: it raises, or it reaches \<open>client.run(TOKEN)\<close> with the token it returns.
\<close>

definition load_dotenv :: "(string \<rightharpoonup> string) \<Rightarrow> (string \<rightharpoonup> string) \<Rightarrow> (string \<rightharpoonup> string)" where
  "load_dotenv dotenv environ = dotenv ++ environ"

definition getenv :: "(string \<rightharpoonup> string) \<Rightarrow> string \<Rightarrow> string option" where
  "getenv environ k = environ k"

definition startup :: "(string \<rightharpoonup> string) \<Rightarrow> (string \<rightharpoonup> string) \<Rightarrow> error + string" where
  "startup dotenv environ =
     (let TOKEN = getenv (load_dotenv dotenv environ) ''DISCORD_TOKEN''
      in if py_not TOKEN then Inl (RuntimeError token_missing_text)
         else (case TOKEN of None \<Rightarrow> Inl (RuntimeError token_missing_text) | Some t \<Rightarrow> Inr t))"

subsection \<open>Views used in the properties\<close>

text \<open>The balance and attendance columns of the table, row by row.\<close>

definition ledger :: "connection \<Rightarrow> (int \<times> int \<times> int) list" where
  "ledger conn = map (\<lambda>r. (user_id r, balance r, total_checkins r)) conn"

text \<open>
  The range of Python's \<open>date\<close>: years 1 to 9999, months 1 to 12, days 1 to 31 (the length
  of the month is not needed here).
\<close>

definition date_in_range :: "date \<Rightarrow> bool" where
  "date_in_range d =
     (1 \<le> year d \<and> year d \<le> 9999 \<and> 1 \<le> month d \<and> month d \<le> 12 \<and>
      1 \<le> day d \<and> day d \<le> 31)"

text \<open>
  Every \<open>joined_at\<close> of the table is NULL or a date text, never the empty text. A new row
  has NULL and the join handler stores the \<open>strftime\<close> text or the word for "unknown", so
  a new table has this form and every handler keeps it.
\<close>

definition joined_dates_ok :: "connection \<Rightarrow> bool" where
  "joined_dates_ok conn = (\<forall>r\<in>set conn. joined_at r \<noteq> Some [])"

subsection \<open>Sample data\<close>

definition sample_row :: user_row where
  "sample_row = \<lparr>user_id = 42, balance = 300000, total_checkins = 3,
                 last_checkin = Some ''2024-01-01'', joined_at = None\<rparr>"

definition alice :: discord_user where
  "alice = \<lparr>u_id = 42, u_str = ''alice'', u_avatar_url = ''https://cdn.example/alice.png''\<rparr>"

definition alice_cmd :: interaction where
  "alice_cmd = \<lparr>user = alice\<rparr>"

definition bob :: member where
  "bob = \<lparr>u_id = 99, u_str = ''bob'', u_avatar_url = ''https://cdn.example/bob.png'',
           m_bot = False, m_joined_at = Some (Date 2024 3 1), m_mention = ''<@99>'',
           m_guild = \<lparr>channels = [5, 6], system_channel = Some 5\<rparr>\<rparr>"

definition bob_again :: member where
  "bob_again = bob\<lparr>m_joined_at := Some (Date 2024 3 5)\<rparr>"

definition helper_bot :: member where
  "helper_bot = \<lparr>u_id = 1000, u_str = ''helper'', u_avatar_url = ''https://cdn.example/h.png'',
           m_bot = True, m_joined_at = Some (Date 2024 3 5), m_mention = ''<@1000>'',
           m_guild = \<lparr>channels = [5, 6], system_channel = Some 5\<rparr>\<rparr>"

definition march_row :: user_row where
  "march_row = \<lparr>user_id = 99, balance = 0, total_checkins = 0,
                 last_checkin = None, joined_at = Some ''2024-03-01''\<rparr>"

definition scenario :: "event list" where
  "scenario = [Profile alice_cmd, Checkin (Date 2024 1 1) alice_cmd,
               Checkin (Date 2024 1 1) alice_cmd, Checkin (Date 2024 1 2) alice_cmd,
               MemberJoin helper_bot, MemberJoin bob, MemberJoin bob_again, Ping alice_cmd]"

definition alice_row_after :: user_row where
  "alice_row_after = \<lparr>user_id = 42, balance = 200000, total_checkins = 2,
                       last_checkin = Some ''2024-01-02'', joined_at = None\<rparr>"

section \<open>Properties\<close>

subsection \<open>Looking rows up\<close>

lemma str_nat_small: "n < 10 \<Longrightarrow> str_nat n = [digit_char n]"
  by (simp add: str_nat.simps)

lemma str_nat_big: "\<not> n < 10 \<Longrightarrow> str_nat n = str_nat (n div 10) @ [digit_char (n mod 10)]"
  by (subst str_nat.simps) simp

lemma select_user_Some: "select_user conn uid = Some r \<Longrightarrow> user_id r = uid \<and> r \<in> set conn"
  unfolding select_user_def by (auto simp: find_Some_iff)

lemma select_user_None: "select_user conn uid = None \<longleftrightarrow> uid \<notin> user_id ` set conn"
  unfolding select_user_def by (auto simp: find_None_iff)

lemma select_user_append:
  "select_user (xs @ ys) uid =
     (case select_user xs uid of None \<Rightarrow> select_user ys uid | Some r \<Rightarrow> Some r)"
  unfolding select_user_def by (induction xs) auto

lemma select_user_new_row: "select_user [new_row uid] uid = Some (new_row uid)"
  by (simp add: select_user_def new_row_def)

lemma select_user_new_row_other: "uid' \<noteq> uid \<Longrightarrow> select_user [new_row uid] uid' = None"
  by (simp add: select_user_def new_row_def)

lemma get_user_existing:
  "select_user conn uid = Some r \<Longrightarrow> get_user conn uid = (conn, Some r)"
  by (simp add: get_user_def ensure_user_def)

lemma get_user_absent:
  "select_user conn uid = None \<Longrightarrow>
   get_user conn uid = (conn @ [new_row uid], Some (new_row uid))"
  by (simp add: get_user_def ensure_user_def select_user_append select_user_new_row)

lemma get_user_cases:
  obtains (existing) r where "select_user conn uid = Some r" "get_user conn uid = (conn, Some r)"
  | (absent) "select_user conn uid = None"
      "get_user conn uid = (conn @ [new_row uid], Some (new_row uid))"
  using get_user_existing get_user_absent by (cases "select_user conn uid") auto

subsection \<open>Creation of a row\<close>

text \<open>
  C3. For a \<open>user_id\<close> that no row of the table carries, \<open>get_user\<close> returns a row with
  balance 0, total_checkins 0, last_checkin NULL and joined_at NULL.
\<close>

theorem get_user_first_access:
  assumes "uid \<notin> user_id ` set conn"
  shows "snd (get_user conn uid) =
         Some \<lparr>user_id = uid, balance = 0, total_checkins = 0,
               last_checkin = None, joined_at = None\<rparr>"
  using assms get_user_absent [of conn uid] by (simp add: select_user_None new_row_def)

theorem get_user_first_access_witness:
  "(42::int) \<notin> user_id ` set [new_row 7] \<and>
   snd (get_user [new_row 7] 42) =
     Some \<lparr>user_id = 42, balance = 0, total_checkins = 0,
           last_checkin = None, joined_at = None\<rparr>"
  using get_user_first_access [of 42 "[new_row 7]"] by (simp add: new_row_def)

lemma select_user_update_checkin:
  "select_user (update_checkin conn b t d uid) uid' =
     (if uid' = uid
      then map_option (\<lambda>r. r\<lparr>balance := b, total_checkins := t, last_checkin := Some d\<rparr>)
             (select_user conn uid)
      else select_user conn uid')"
  unfolding select_user_def update_checkin_def by (induction conn) auto

lemma select_user_update_joined_at:
  "select_user (update_joined_at conn j uid) uid' =
     (if uid' = uid
      then map_option (\<lambda>r. r\<lparr>joined_at := Some j\<rparr>) (select_user conn uid)
      else select_user conn uid')"
  unfolding select_user_def update_joined_at_def by (induction conn) auto

lemma select_user_ensure_user_other:
  "uid' \<noteq> uid \<Longrightarrow> select_user (ensure_user conn uid) uid' = select_user conn uid'"
  by (auto simp: ensure_user_def select_user_append select_user_new_row_other split: option.splits)

lemma select_user_ensure_user_same:
  "select_user (ensure_user conn uid) uid =
     Some (case select_user conn uid of None \<Rightarrow> new_row uid | Some r \<Rightarrow> r)"
  by (auto simp: ensure_user_def select_user_append select_user_new_row split: option.splits)

lemma fst_get_user: "fst (get_user conn uid) = ensure_user conn uid"
  by (simp add: get_user_def Let_def)

lemma snd_get_user: "snd (get_user conn uid) = select_user (ensure_user conn uid) uid"
  by (simp add: get_user_def Let_def)

lemma ensure_user_idem: "ensure_user (ensure_user conn uid) uid = ensure_user conn uid"
  by (simp add: ensure_user_def [of "ensure_user conn uid"] select_user_ensure_user_same)

lemma filter_ensure_user:
  "length (filter (\<lambda>r. user_id r = uid) (ensure_user conn uid)) =
   max 1 (length (filter (\<lambda>r. user_id r = uid) conn))"
proof (cases "select_user conn uid")
  case None
  then have "filter (\<lambda>r. user_id r = uid) conn = []"
    by (auto simp: select_user_None filter_empty_conv)
  with None show ?thesis by (simp add: ensure_user_def new_row_def)
next
  case (Some r)
  then have "r \<in> set (filter (\<lambda>r. user_id r = uid) conn)"
    using select_user_Some by fastforce
  then have "0 < length (filter (\<lambda>r. user_id r = uid) conn)"
    by (metis length_pos_if_in_set)
  with Some show ?thesis
    by (cases "filter (\<lambda>r. user_id r = uid) conn") (simp_all add: ensure_user_def)
qed

lemma distinct_ensure_user:
  "distinct (map user_id conn) \<Longrightarrow> distinct (map user_id (ensure_user conn uid))"
  by (auto simp: ensure_user_def select_user_None new_row_def split: option.splits)

text \<open>
  C4. \<open>get_user\<close> is idempotent: a second call returns the same table and the same row
  as the first; a row that exists is returned as it is and the table is left as it is; the
  call leaves exactly one row for the \<open>user_id\<close> when there was none and adds none
  otherwise; \<open>user_id\<close> stays a key of the table.
\<close>

theorem get_user_idempotent:
  "get_user (fst (get_user conn uid)) uid = get_user conn uid \<and>
   (\<forall>r. select_user conn uid = Some r \<longrightarrow> get_user conn uid = (conn, Some r)) \<and>
   length (filter (\<lambda>r. user_id r = uid) (fst (get_user conn uid))) =
     max 1 (length (filter (\<lambda>r. user_id r = uid) conn)) \<and>
   (distinct (map user_id conn) \<longrightarrow> distinct (map user_id (fst (get_user conn uid))))"
proof (intro conjI allI impI)
  show "get_user (fst (get_user conn uid)) uid = get_user conn uid"
    by (simp add: get_user_def Let_def ensure_user_idem)
next
  fix r assume "select_user conn uid = Some r"
  then show "get_user conn uid = (conn, Some r)" by (rule get_user_existing)
next
  show "length (filter (\<lambda>r. user_id r = uid) (fst (get_user conn uid))) =
        max 1 (length (filter (\<lambda>r. user_id r = uid) conn))"
    by (simp add: fst_get_user filter_ensure_user)
next
  assume "distinct (map user_id conn)"
  then show "distinct (map user_id (fst (get_user conn uid)))"
    by (simp add: fst_get_user distinct_ensure_user)
qed

theorem get_user_idempotent_witness:
  "select_user [new_row 7, sample_row] 42 = Some sample_row \<and>
   distinct (map user_id [new_row 7, sample_row]) \<and>
   get_user (fst (get_user [new_row 7, sample_row] 42)) 42 = get_user [new_row 7, sample_row] 42 \<and>
   get_user [new_row 7, sample_row] 42 = ([new_row 7, sample_row], Some sample_row) \<and>
   length (filter (\<lambda>r. user_id r = 42) (fst (get_user [new_row 7, sample_row] 42))) = 1 \<and>
   distinct (map user_id (fst (get_user [new_row 7, sample_row] 42)))"
proof -
  have h: "select_user [new_row 7, sample_row] 42 = Some sample_row"
    by (simp add: select_user_def new_row_def sample_row_def)
  have d: "distinct (map user_id [new_row 7, sample_row])"
    by (simp add: new_row_def sample_row_def)
  have f: "length (filter (\<lambda>r. user_id r = 42) [new_row 7, sample_row]) = 1"
    by (simp add: new_row_def sample_row_def)
  from get_user_idempotent [of "[new_row 7, sample_row]" 42] h d f show ?thesis
    by simp
qed

lemma isoformat_2024_01_01: "isoformat (Date 2024 1 1) = ''2024-01-01''"
  by (simp add: isoformat_def zero_pad_def str_nat_small str_nat_big digit_char_def)

lemma isoformat_2024_01_02: "isoformat (Date 2024 1 2) = ''2024-01-02''"
  by (simp add: isoformat_def zero_pad_def str_nat_small str_nat_big digit_char_def)

lemma already_embed_fields:
  "title (already_embed i r) = already_title \<and>
   e_fields (already_embed i r) = [(lbl_balance, format_won (balance r), True)]"
  by (simp add: already_embed_def Embed_def add_field_def set_thumbnail_def)

lemma granted_embed_fields:
  "title (granted_embed i b t) = done_title \<and>
   e_fields (granted_embed i b t) =
     [(lbl_balance, format_won b, True), (lbl_total, str_int t @ times_suffix, True)]"
  by (simp add: granted_embed_def Embed_def add_field_def set_thumbnail_def)

subsection \<open>The check-in transition\<close>

text \<open>
  C1. When the row of the user has \<open>last_checkin\<close> equal to today's date, the check-in
  changes nothing: the table after it is the table before it (so balance, total_checkins,
  last_checkin and joined_at of the row are what they were), and the reply is the
  "already checked in" embed, sent ephemeral, whose only field shows the unchanged balance.
\<close>

theorem checkin_same_day_rejected:
  assumes "select_user conn (u_id (user i)) = Some r"
    and "last_checkin r = Some (isoformat today)"
  shows "checkin conn today i =
           (conn, Inr \<lparr>content = None, embed_of = Some (already_embed i r), ephemeral = True\<rparr>) \<and>
         title (already_embed i r) = already_title \<and>
         e_fields (already_embed i r) = [(lbl_balance, format_won (balance r), True)]"
  using assms get_user_existing [OF assms(1)]
  by (simp add: checkin_def Let_def already_embed_fields)

theorem checkin_same_day_rejected_witness:
  "select_user [new_row 7, sample_row] (u_id (user alice_cmd)) = Some sample_row \<and>
   last_checkin sample_row = Some (isoformat (Date 2024 1 1)) \<and>
   checkin [new_row 7, sample_row] (Date 2024 1 1) alice_cmd =
     ([new_row 7, sample_row],
      Inr \<lparr>content = None, embed_of = Some (already_embed alice_cmd sample_row),
           ephemeral = True\<rparr>) \<and>
   e_fields (already_embed alice_cmd sample_row) = [(lbl_balance, format_won 300000, True)]"
proof -
  have h1: "select_user [new_row 7, sample_row] (u_id (user alice_cmd)) = Some sample_row"
    by (simp add: select_user_def new_row_def sample_row_def alice_cmd_def alice_def)
  have h2: "last_checkin sample_row = Some (isoformat (Date 2024 1 1))"
    unfolding isoformat_2024_01_01 by (simp add: sample_row_def)
  have b: "balance sample_row = 300000"
    by (simp add: sample_row_def)
  from checkin_same_day_rejected [OF h1 h2] h1 h2 b show ?thesis
    by simp
qed

text \<open>
  C2. When the row that \<open>get_user\<close> returns (an existing one, or the one just created, whose
  \<open>last_checkin\<close> is NULL) has a \<open>last_checkin\<close> other than today's date, the check-in is
  granted: one \<open>UPDATE\<close> sets balance to the old balance plus 100000, total_checkins to the
  old total plus 1 and last_checkin to today; the other columns of the row and the rows of
  the other users stay as they are; the reply is the "done" embed with the new balance and
  the new total.
\<close>

theorem checkin_granted:
  assumes "get_user conn (u_id (user i)) = (conn1, Some r)"
    and "last_checkin r \<noteq> Some (isoformat today)"
  shows "checkin conn today i =
           (update_checkin conn1 (balance r + 100000) (total_checkins r + 1) (isoformat today)
              (u_id (user i)),
            Inr \<lparr>content = None,
                 embed_of = Some (granted_embed i (balance r + 100000) (total_checkins r + 1)),
                 ephemeral = False\<rparr>) \<and>
         select_user (fst (checkin conn today i)) (u_id (user i)) =
           Some (r\<lparr>balance := balance r + 100000, total_checkins := total_checkins r + 1,
                   last_checkin := Some (isoformat today)\<rparr>) \<and>
         (\<forall>uid'. uid' \<noteq> u_id (user i) \<longrightarrow>
            select_user (fst (checkin conn today i)) uid' = select_user conn uid') \<and>
         e_fields (granted_embed i (balance r + 100000) (total_checkins r + 1)) =
           [(lbl_balance, format_won (balance r + 100000), True),
            (lbl_total, str_int (total_checkins r + 1) @ times_suffix, True)]"
proof -
  let ?uid = "u_id (user i)"
  have c1: "conn1 = ensure_user conn ?uid" and r: "select_user conn1 ?uid = Some r"
    using assms(1) by (auto simp: get_user_def Let_def)
  have eq: "checkin conn today i =
           (update_checkin conn1 (balance r + 100000) (total_checkins r + 1) (isoformat today) ?uid,
            Inr \<lparr>content = None,
                 embed_of = Some (granted_embed i (balance r + 100000) (total_checkins r + 1)),
                 ephemeral = False\<rparr>)"
    using assms by (simp add: checkin_def Let_def DAILY_REWARD_def)
  have same: "select_user (fst (checkin conn today i)) ?uid =
           Some (r\<lparr>balance := balance r + 100000, total_checkins := total_checkins r + 1,
                   last_checkin := Some (isoformat today)\<rparr>)"
    by (simp add: eq select_user_update_checkin r)
  have other: "\<forall>uid'. uid' \<noteq> ?uid \<longrightarrow>
            select_user (fst (checkin conn today i)) uid' = select_user conn uid'"
    by (simp add: eq select_user_update_checkin c1 select_user_ensure_user_other)
  from eq same other granted_embed_fields [of i] show ?thesis by blast
qed

theorem checkin_granted_witness:
  "get_user [new_row 7, sample_row] (u_id (user alice_cmd)) = ([new_row 7, sample_row], Some sample_row) \<and>
   last_checkin sample_row \<noteq> Some (isoformat (Date 2024 1 2)) \<and>
   select_user (fst (checkin [new_row 7, sample_row] (Date 2024 1 2) alice_cmd)) 42 =
     Some \<lparr>user_id = 42, balance = 400000, total_checkins = 4,
           last_checkin = Some ''2024-01-02'', joined_at = None\<rparr> \<and>
   select_user (fst (checkin [new_row 7, sample_row] (Date 2024 1 2) alice_cmd)) 7 = Some (new_row 7) \<and>
   get_user [] (u_id (user alice_cmd)) = ([new_row 42], Some (new_row 42)) \<and>
   last_checkin (new_row 42) \<noteq> Some (isoformat (Date 2024 1 2)) \<and>
   select_user (fst (checkin [] (Date 2024 1 2) alice_cmd)) 42 =
     Some \<lparr>user_id = 42, balance = 100000, total_checkins = 1,
           last_checkin = Some ''2024-01-02'', joined_at = None\<rparr>"
proof -
  have h1: "get_user [new_row 7, sample_row] (u_id (user alice_cmd)) =
              ([new_row 7, sample_row], Some sample_row)"
    by (simp add: get_user_def ensure_user_def select_user_def new_row_def sample_row_def
        alice_cmd_def alice_def)
  have h2: "last_checkin sample_row \<noteq> Some (isoformat (Date 2024 1 2))"
    unfolding isoformat_2024_01_02 by (simp add: sample_row_def)
  have u: "u_id (user alice_cmd) = 42"
    by (simp add: alice_cmd_def alice_def)
  have s7: "select_user [new_row 7, sample_row] 7 = Some (new_row 7)"
    by (simp add: select_user_def new_row_def)
  note g = checkin_granted [OF h1 h2, unfolded u isoformat_2024_01_02]
  from g have a: "select_user (fst (checkin [new_row 7, sample_row] (Date 2024 1 2) alice_cmd)) 42 =
      Some (sample_row\<lparr>balance := balance sample_row + 100000,
              total_checkins := total_checkins sample_row + 1,
              last_checkin := Some ''2024-01-02''\<rparr>)"
    by blast
  from g have "\<forall>uid'. uid' \<noteq> 42 \<longrightarrow>
      select_user (fst (checkin [new_row 7, sample_row] (Date 2024 1 2) alice_cmd)) uid' =
      select_user [new_row 7, sample_row] uid'"
    by blast
  then have b: "select_user (fst (checkin [new_row 7, sample_row] (Date 2024 1 2) alice_cmd)) 7 =
      select_user [new_row 7, sample_row] 7"
    by simp
  have h3: "get_user [] (u_id (user alice_cmd)) = ([new_row 42], Some (new_row 42))"
    unfolding u using get_user_absent [of "[]" 42] by (simp add: select_user_def)
  have h4: "last_checkin (new_row 42) \<noteq> Some (isoformat (Date 2024 1 2))"
    by (simp add: new_row_def)
  note g' = checkin_granted [OF h3 h4, unfolded u isoformat_2024_01_02]
  from g' have c: "select_user (fst (checkin [] (Date 2024 1 2) alice_cmd)) 42 =
      Some (new_row 42\<lparr>balance := balance (new_row 42) + 100000,
              total_checkins := total_checkins (new_row 42) + 1,
              last_checkin := Some ''2024-01-02''\<rparr>)"
    by blast
  from a b c s7 h1 h2 h3 h4 show ?thesis
    by (simp add: sample_row_def new_row_def)
qed

lemma isoformat_2024_03_01: "isoformat (Date 2024 3 1) = ''2024-03-01''"
  by (simp add: isoformat_def zero_pad_def str_nat_small str_nat_big digit_char_def)

lemma isoformat_2024_03_05: "isoformat (Date 2024 3 5) = ''2024-03-05''"
  by (simp add: isoformat_def zero_pad_def str_nat_small str_nat_big digit_char_def)

lemma str_nat_nonempty: "str_nat n \<noteq> []"
  by (subst str_nat.simps) simp

lemma isoformat_nonempty: "isoformat d \<noteq> []"
  by (simp add: isoformat_def)

lemma unknown_date_nonempty: "unknown_date \<noteq> []"
  by (simp add: unknown_date_def)

lemma joined_str_of_nonempty: "joined_str_of m \<noteq> []"
  by (simp add: joined_str_of_def isoformat_nonempty unknown_date_nonempty split: option.splits)

lemma py_not_iff: "py_not v \<longleftrightarrow> v = None \<or> v = Some []"
  by (simp add: py_not_def split: option.splits)

lemma ensure_user_present: "select_user conn uid = Some r \<Longrightarrow> ensure_user conn uid = conn"
  by (simp add: ensure_user_def)

lemma get_user_after_update_joined_at:
  "select_user conn uid = Some r \<Longrightarrow>
   get_user (update_joined_at conn j uid) uid =
     (update_joined_at conn j uid, Some (r\<lparr>joined_at := Some j\<rparr>))"
  by (rule get_user_existing) (simp add: select_user_update_joined_at)

lemma fst_on_member_join:
  assumes "\<not> m_bot m" and "get_user conn (u_id m) = (conn1, Some r)"
  shows "fst (on_member_join conn m) =
           (if py_not (joined_at r) then update_joined_at conn1 (joined_str_of m) (u_id m)
            else conn1)"
proof -
  have r: "select_user conn1 (u_id m) = Some r"
    using assms(2) by (auto simp: get_user_def Let_def)
  show ?thesis
    using assms get_user_after_update_joined_at [OF r, of "joined_str_of m"]
    by (simp add: on_member_join_def Let_def split: option.splits)
qed

subsection \<open>Join events\<close>

text \<open>
  C8. A join event of a bot is ignored: the table is left as it is (no row is created or
  changed) and nothing is sent.
\<close>

theorem on_member_join_ignores_bots:
  assumes "m_bot m"
  shows "on_member_join conn m = (conn, Inr None)"
  using assms by (simp add: on_member_join_def)

theorem on_member_join_ignores_bots_witness:
  "m_bot helper_bot \<and> on_member_join [sample_row] helper_bot = ([sample_row], Inr None)"
proof -
  have h: "m_bot helper_bot" by (simp add: helper_bot_def)
  from on_member_join_ignores_bots [OF h] h show ?thesis by simp
qed

subsection \<open>Start-up without a token\<close>

text \<open>
  C9. When neither the \<open>.env\<close> file nor the environment defines \<open>DISCORD_TOKEN\<close>, the module
  ends by raising \<open>RuntimeError\<close>; \<open>client.run\<close> is not reached.
\<close>

theorem startup_without_token:
  assumes "dotenv ''DISCORD_TOKEN'' = None" and "environ ''DISCORD_TOKEN'' = None"
  shows "startup dotenv environ = Inl (RuntimeError token_missing_text)"
  using assms
  by (simp add: startup_def getenv_def load_dotenv_def py_not_def map_add_def)

theorem startup_without_token_witness:
  "(Map.empty :: string \<rightharpoonup> string) ''DISCORD_TOKEN'' = None \<and>
   [''PORT'' \<mapsto> ''10000''] ''DISCORD_TOKEN'' = None \<and>
   startup Map.empty [''PORT'' \<mapsto> ''10000''] = Inl (RuntimeError token_missing_text)"
proof -
  have h1: "(Map.empty :: string \<rightharpoonup> string) ''DISCORD_TOKEN'' = None" by simp
  have h2: "[''PORT'' \<mapsto> ''10000''] ''DISCORD_TOKEN'' = None" by simp
  from startup_without_token [of Map.empty "[''PORT'' \<mapsto> ''10000'']"] h1 h2 show ?thesis
    by simp
qed

lemma startup_with_token:
  assumes "environ ''DISCORD_TOKEN'' = Some t" and "t \<noteq> []"
  shows "startup dotenv environ = Inr t"
  using assms
  by (simp add: startup_def getenv_def load_dotenv_def py_not_def map_add_def)

lemma get_user_total:
  "\<exists>r. get_user conn uid = (ensure_user conn uid, Some r) \<and>
       select_user (ensure_user conn uid) uid = Some r"
  by (simp add: get_user_def Let_def select_user_ensure_user_same)

lemma fst_profile: "fst (profile conn i) = ensure_user conn (u_id (user i))"
  using get_user_total [of conn "u_id (user i)"]
  by (auto simp: profile_def Let_def)

lemma fst_ping: "fst (ping conn i) = conn"
  by (simp add: ping_def)

lemma fst_checkin:
  assumes "select_user (ensure_user conn (u_id (user i))) (u_id (user i)) = Some r"
  shows "fst (checkin conn d i) =
           (if last_checkin r = Some (isoformat d) then ensure_user conn (u_id (user i))
            else update_checkin (ensure_user conn (u_id (user i)))
                   (balance r + DAILY_REWARD) (total_checkins r + 1) (isoformat d)
                   (u_id (user i)))"
  using assms by (simp add: checkin_def get_user_def Let_def)

lemma fst_on_member_join_row:
  assumes "\<not> m_bot m"
    and "select_user (ensure_user conn (u_id m)) (u_id m) = Some r"
  shows "fst (on_member_join conn m) =
           (if py_not (joined_at r)
            then update_joined_at (ensure_user conn (u_id m)) (joined_str_of m) (u_id m)
            else ensure_user conn (u_id m))"
  using assms by (intro fst_on_member_join) (simp_all add: get_user_def Let_def)

lemma map_joined_at_update_checkin:
  "map joined_at (update_checkin conn b t d uid) = map joined_at conn"
  by (simp add: update_checkin_def)

lemma map_joined_at_ensure_user:
  "map joined_at (ensure_user conn uid) =
     map joined_at conn @ (if uid \<in> user_id ` set conn then [] else [None])"
  using select_user_None [of conn uid]
  by (auto simp: ensure_user_def new_row_def split: option.splits)

subsection \<open>Commands and the join date\<close>

text \<open>
  C6, as stated, fails: no command writes \<open>joined_at\<close>. A user first seen through the
  profile command or the check-in command gets a row whose \<open>joined_at\<close> is NULL.
\<close>

theorem command_first_counterexample:
  "select_user [] (u_id (user alice_cmd)) = None \<and>
   map_option joined_at (select_user (fst (profile [] alice_cmd)) (u_id (user alice_cmd))) = Some None \<and>
   map_option joined_at
     (select_user (fst (checkin [] (Date 2024 3 5) alice_cmd)) (u_id (user alice_cmd))) = Some None"
proof -
  have u: "u_id (user alice_cmd) = 42" by (simp add: alice_cmd_def alice_def)
  have e: "ensure_user [] 42 = [new_row 42]" by (simp add: ensure_user_def select_user_def)
  have s: "select_user [new_row 42] 42 = Some (new_row 42)" by (rule select_user_new_row)
  have p: "fst (profile [] alice_cmd) = [new_row 42]"
    by (simp add: fst_profile u e)
  have c: "fst (checkin [] (Date 2024 3 5) alice_cmd) =
             update_checkin [new_row 42] 100000 1 (isoformat (Date 2024 3 5)) 42"
    using fst_checkin [of "[]" alice_cmd "new_row 42" "Date 2024 3 5"]
    by (simp add: u e s) (simp add: new_row_def DAILY_REWARD_def)
  show ?thesis
    unfolding p c u
    by (simp add: select_user_update_checkin s) (simp add: select_user_def new_row_def)
qed

text \<open>
  C6, amended. Only the join event sets \<open>joined_at\<close>. The check-in, profile and ping
  commands leave the \<open>joined_at\<close> of every row as it is, and the row they create for a
  user never seen before has \<open>joined_at\<close> NULL; a join event of a user never seen before
  (not a bot) creates the row with the observed join date.
\<close>

theorem commands_never_set_joined_at:
  "map joined_at (fst (checkin conn d i)) = map joined_at (ensure_user conn (u_id (user i))) \<and>
   map joined_at (fst (profile conn i)) = map joined_at (ensure_user conn (u_id (user i))) \<and>
   map joined_at (fst (ping conn i)) = map joined_at conn \<and>
   map joined_at (ensure_user conn uid) =
     map joined_at conn @ (if uid \<in> user_id ` set conn then [] else [None]) \<and>
   (\<not> m_bot m \<and> u_id m \<notin> user_id ` set conn \<longrightarrow>
      select_user (fst (on_member_join conn m)) (u_id m) =
        Some ((new_row (u_id m))\<lparr>joined_at := Some (joined_str_of m)\<rparr>))"
proof (intro conjI impI)
  obtain r where r: "select_user (ensure_user conn (u_id (user i))) (u_id (user i)) = Some r"
    using get_user_total by blast
  show "map joined_at (fst (checkin conn d i)) = map joined_at (ensure_user conn (u_id (user i)))"
    by (simp add: fst_checkin [OF r] map_joined_at_update_checkin)
  show "map joined_at (fst (profile conn i)) = map joined_at (ensure_user conn (u_id (user i)))"
    by (simp add: fst_profile)
  show "map joined_at (fst (ping conn i)) = map joined_at conn"
    by (simp add: fst_ping)
  show "map joined_at (ensure_user conn uid) =
     map joined_at conn @ (if uid \<in> user_id ` set conn then [] else [None])"
    by (rule map_joined_at_ensure_user)
next
  assume a: "\<not> m_bot m \<and> u_id m \<notin> user_id ` set conn"
  then have n: "select_user conn (u_id m) = None" by (simp add: select_user_None)
  then have s: "select_user (ensure_user conn (u_id m)) (u_id m) = Some (new_row (u_id m))"
    by (simp add: select_user_ensure_user_same)
  have "py_not (joined_at (new_row (u_id m)))" by (simp add: py_not_def new_row_def)
  with a fst_on_member_join_row [OF _ s]
  show "select_user (fst (on_member_join conn m)) (u_id m) =
        Some ((new_row (u_id m))\<lparr>joined_at := Some (joined_str_of m)\<rparr>)"
    by (simp add: select_user_update_joined_at s)
qed


theorem commands_never_set_joined_at_witness:
  "map joined_at (fst (profile [] alice_cmd)) = [None] \<and>
   map joined_at (fst (checkin [] (Date 2024 3 5) alice_cmd)) = [None] \<and>
   map joined_at (fst (ping [march_row] alice_cmd)) = [Some ''2024-03-01''] \<and>
   \<not> m_bot bob \<and> u_id bob \<notin> user_id ` set [] \<and>
   select_user (fst (on_member_join [] bob)) (u_id bob) = Some march_row"
proof -
  have u: "u_id (user alice_cmd) = 42" by (simp add: alice_cmd_def alice_def)
  have e: "map joined_at (ensure_user [] 42) = [None]"
    by (simp add: ensure_user_def select_user_def new_row_def)
  have nb: "\<not> m_bot bob" and ub: "u_id bob = 99" by (simp_all add: bob_def)
  have mj: "m_joined_at bob = Some (Date 2024 3 1)" by (simp add: bob_def)
  have js: "joined_str_of bob = ''2024-03-01''"
    by (simp only: joined_str_of_def mj option.case isoformat_2024_03_01)
  have m: "new_row 99\<lparr>joined_at := Some ''2024-03-01''\<rparr> = march_row"
    by (simp add: new_row_def march_row_def)
  note a = commands_never_set_joined_at [of "[]" "Date 2024 3 5" alice_cmd 42 bob, unfolded u]
  note b = commands_never_set_joined_at [of "[march_row]" "Date 2024 3 5" alice_cmd 42 bob]
  from a e have 1: "map joined_at (fst (profile [] alice_cmd)) = [None]"
    and 2: "map joined_at (fst (checkin [] (Date 2024 3 5) alice_cmd)) = [None]"
    by simp_all
  from b have 3: "map joined_at (fst (ping [march_row] alice_cmd)) = [Some ''2024-03-01'']"
    by (simp add: march_row_def)
  from a nb ub js m have 4: "select_user (fst (on_member_join [] bob)) (u_id bob) = Some march_row"
    by simp
  from 1 2 3 4 nb show ?thesis by simp
qed

subsection \<open>Who changes balance and total_checkins\<close>

lemma ledger_update_joined_at: "ledger (update_joined_at conn j uid) = ledger conn"
  by (simp add: ledger_def update_joined_at_def)

lemma ledger_update_checkin:
  "ledger (update_checkin conn b t d uid) =
     map (\<lambda>(u, b', t'). if u = uid then (u, b, t) else (u, b', t')) (ledger conn)"
  by (simp add: ledger_def update_checkin_def)

lemma ledger_ensure_user:
  "ledger (ensure_user conn uid) =
     ledger conn @ (if uid \<in> user_id ` set conn then [] else [(uid, 0, 0)])"
  using select_user_None [of conn uid]
  by (auto simp: ledger_def ensure_user_def new_row_def split: option.splits)

lemma ledger_on_member_join:
  "ledger (fst (on_member_join conn m)) =
     (if m_bot m then ledger conn else ledger (ensure_user conn (u_id m)))"
proof (cases "m_bot m")
  case True
  then show ?thesis by (simp add: on_member_join_def)
next
  case False
  obtain r where r: "select_user (ensure_user conn (u_id m)) (u_id m) = Some r"
    using get_user_total by blast
  show ?thesis
    using False by (simp add: fst_on_member_join_row [OF False r] ledger_update_joined_at)
qed

text \<open>
  C7. The profile command, the ping command and the join event leave balance and
  total_checkins of every row as they are (a row they create starts at 0 and 0); so does a
  check-in that is rejected because \<open>last_checkin\<close> is today. A granted check-in changes
  both columns of the user's row in its one \<open>UPDATE\<close>, to the old balance plus 100000 and the
  old total plus 1, and leaves the rows of the other users as they are.
\<close>

theorem balance_total_frame:
  "ledger (fst (profile conn i)) = ledger (ensure_user conn (u_id (user i))) \<and>
   ledger (fst (ping conn i)) = ledger conn \<and>
   ledger (fst (on_member_join conn m)) =
     (if m_bot m then ledger conn else ledger (ensure_user conn (u_id m))) \<and>
   ledger (ensure_user conn uid) =
     ledger conn @ (if uid \<in> user_id ` set conn then [] else [(uid, 0, 0)]) \<and>
   (\<forall>r. snd (get_user conn (u_id (user i))) = Some r \<and> last_checkin r = Some (isoformat d) \<longrightarrow>
      ledger (fst (checkin conn d i)) = ledger conn) \<and>
   (\<forall>r. snd (get_user conn (u_id (user i))) = Some r \<and> last_checkin r \<noteq> Some (isoformat d) \<longrightarrow>
      ledger (fst (checkin conn d i)) =
        map (\<lambda>(u, b, t). if u = u_id (user i)
                          then (u, balance r + 100000, total_checkins r + 1) else (u, b, t))
          (ledger (ensure_user conn (u_id (user i)))))"
proof (intro conjI allI impI)
  show "ledger (fst (profile conn i)) = ledger (ensure_user conn (u_id (user i)))"
    by (simp add: fst_profile)
  show "ledger (fst (ping conn i)) = ledger conn"
    by (simp add: fst_ping)
  show "ledger (fst (on_member_join conn m)) =
     (if m_bot m then ledger conn else ledger (ensure_user conn (u_id m)))"
    by (rule ledger_on_member_join)
  show "ledger (ensure_user conn uid) =
     ledger conn @ (if uid \<in> user_id ` set conn then [] else [(uid, 0, 0)])"
    by (rule ledger_ensure_user)
next
  fix r
  assume a: "snd (get_user conn (u_id (user i))) = Some r \<and> last_checkin r = Some (isoformat d)"
  then have s: "select_user (ensure_user conn (u_id (user i))) (u_id (user i)) = Some r"
    by (simp add: snd_get_user)
  from a have "r \<noteq> new_row (u_id (user i))" by (auto simp: new_row_def)
  with s have "select_user conn (u_id (user i)) \<noteq> None"
    by (auto simp: select_user_ensure_user_same split: option.splits)
  then have "ensure_user conn (u_id (user i)) = conn"
    by (auto simp: ensure_user_def)
  with a show "ledger (fst (checkin conn d i)) = ledger conn"
    by (simp add: fst_checkin [OF s])
next
  fix r
  assume a: "snd (get_user conn (u_id (user i))) = Some r \<and> last_checkin r \<noteq> Some (isoformat d)"
  then have s: "select_user (ensure_user conn (u_id (user i))) (u_id (user i)) = Some r"
    by (simp add: snd_get_user)
  from a show "ledger (fst (checkin conn d i)) =
        map (\<lambda>(u, b, t). if u = u_id (user i)
                          then (u, balance r + 100000, total_checkins r + 1) else (u, b, t))
          (ledger (ensure_user conn (u_id (user i))))"
    by (simp add: fst_checkin [OF s] ledger_update_checkin DAILY_REWARD_def)
qed


theorem balance_total_frame_witness:
  "snd (get_user [new_row 7, sample_row] (u_id (user alice_cmd))) = Some sample_row \<and>
   last_checkin sample_row = Some (isoformat (Date 2024 1 1)) \<and>
   last_checkin sample_row \<noteq> Some (isoformat (Date 2024 1 2)) \<and>
   ledger [new_row 7, sample_row] = [(7, 0, 0), (42, 300000, 3)] \<and>
   ledger (fst (profile [new_row 7, sample_row] alice_cmd)) = [(7, 0, 0), (42, 300000, 3)] \<and>
   ledger (fst (ping [new_row 7, sample_row] alice_cmd)) = [(7, 0, 0), (42, 300000, 3)] \<and>
   ledger (fst (on_member_join [new_row 7, sample_row] bob)) =
     [(7, 0, 0), (42, 300000, 3), (99, 0, 0)] \<and>
   ledger (fst (checkin [new_row 7, sample_row] (Date 2024 1 1) alice_cmd)) =
     [(7, 0, 0), (42, 300000, 3)] \<and>
   ledger (fst (checkin [new_row 7, sample_row] (Date 2024 1 2) alice_cmd)) =
     [(7, 0, 0), (42, 400000, 4)]"
proof -
  let ?c = "[new_row 7, sample_row]"
  have u: "u_id (user alice_cmd) = 42" by (simp add: alice_cmd_def alice_def)
  have nb: "\<not> m_bot bob" and ub: "u_id bob = 99" by (simp_all add: bob_def)
  have e: "ensure_user ?c 42 = ?c"
    by (simp add: ensure_user_def select_user_def new_row_def sample_row_def)
  have g: "snd (get_user ?c 42) = Some sample_row"
    by (simp add: snd_get_user e) (simp add: select_user_def new_row_def sample_row_def)
  have l1: "last_checkin sample_row = Some (isoformat (Date 2024 1 1))"
    unfolding isoformat_2024_01_01 by (simp add: sample_row_def)
  have l2: "last_checkin sample_row \<noteq> Some (isoformat (Date 2024 1 2))"
    unfolding isoformat_2024_01_02 by (simp add: sample_row_def)
  have l: "ledger ?c = [(7, 0, 0), (42, 300000, 3)]"
    by (simp add: ledger_def new_row_def sample_row_def)
  have bt: "balance sample_row = 300000" "total_checkins sample_row = 3"
    by (simp_all add: sample_row_def)
  note f1 = balance_total_frame [of ?c alice_cmd bob 42 "Date 2024 1 1", unfolded u ub e l]
  note f2 = balance_total_frame [of ?c alice_cmd bob 99 "Date 2024 1 2", unfolded u ub e l]
  from f1 have 1: "ledger (fst (profile ?c alice_cmd)) = [(7, 0, 0), (42, 300000, 3)]"
    and 2: "ledger (fst (ping ?c alice_cmd)) = [(7, 0, 0), (42, 300000, 3)]"
    by blast+
  from f2 nb have 3: "ledger (fst (on_member_join ?c bob)) =
      [(7, 0, 0), (42, 300000, 3), (99, 0, 0)]"
    by (simp add: new_row_def sample_row_def)
  from f1 g l1 have 4: "ledger (fst (checkin ?c (Date 2024 1 1) alice_cmd)) =
      [(7, 0, 0), (42, 300000, 3)]"
    by blast
  from f2 g l2 have "ledger (fst (checkin ?c (Date 2024 1 2) alice_cmd)) =
      map (\<lambda>(u, b, t). if u = 42
                          then (u, balance sample_row + 100000, total_checkins sample_row + 1)
                          else (u, b, t))
        [(7, 0, 0), (42, 300000, 3)]"
    by blast
  then have 5: "ledger (fst (checkin ?c (Date 2024 1 2) alice_cmd)) = [(7, 0, 0), (42, 400000, 4)]"
    by (simp add: bt)
  from g l1 l2 l 1 2 3 4 5 show ?thesis
    unfolding u by blast
qed

subsection \<open>Balance against attendance\<close>

lemma ledger_invariant_ensure_user:
  "\<forall>r\<in>set conn. balance r = total_checkins r * DAILY_REWARD \<Longrightarrow>
   \<forall>r\<in>set (ensure_user conn uid). balance r = total_checkins r * DAILY_REWARD"
  by (auto simp: ensure_user_def new_row_def split: option.splits)

lemma ledger_invariant_handle:
  assumes "\<forall>r\<in>set conn. balance r = total_checkins r * DAILY_REWARD"
  shows "\<forall>r\<in>set (handle conn ev). balance r = total_checkins r * DAILY_REWARD"
proof (cases ev)
  case (MemberJoin m)
  let ?c = "ensure_user conn (u_id m)"
  obtain r where r: "select_user ?c (u_id m) = Some r"
    using get_user_total by blast
  have c: "\<forall>r\<in>set ?c. balance r = total_checkins r * DAILY_REWARD"
    using assms by (rule ledger_invariant_ensure_user)
  show ?thesis
  proof (cases "m_bot m")
    case True
    with assms MemberJoin show ?thesis by (simp add: on_member_join_def)
  next
    case False
    from c show ?thesis
      unfolding MemberJoin handle.simps fst_on_member_join_row [OF False r]
      by (auto simp: update_joined_at_def)
  qed
next
  case (Checkin d i)
  let ?c = "ensure_user conn (u_id (user i))"
  obtain r where r: "select_user ?c (u_id (user i)) = Some r"
    using get_user_total by blast
  have c: "\<forall>r\<in>set ?c. balance r = total_checkins r * DAILY_REWARD"
    using assms by (rule ledger_invariant_ensure_user)
  from r have "r \<in> set ?c" using select_user_Some by blast
  with c have "balance r + DAILY_REWARD = (total_checkins r + 1) * DAILY_REWARD"
    by (simp add: algebra_simps)
  with c show ?thesis
    unfolding Checkin handle.simps fst_checkin [OF r]
    by (auto simp: update_checkin_def)
next
  case (Profile i)
  with assms show ?thesis
    by (simp add: fst_profile ledger_invariant_ensure_user)
next
  case (Ping i)
  with assms show ?thesis by (simp add: fst_ping)
qed

lemma ledger_invariant_run:
  "\<forall>r\<in>set conn. balance r = total_checkins r * DAILY_REWARD \<Longrightarrow>
   \<forall>r\<in>set (run conn evs). balance r = total_checkins r * DAILY_REWARD"
  unfolding run_def
proof (induction evs arbitrary: conn)
  case Nil
  then show ?case by simp
next
  case (Cons ev evs)
  from Cons.prems have "\<forall>r\<in>set (handle conn ev). balance r = total_checkins r * DAILY_REWARD"
    by (rule ledger_invariant_handle)
  then show ?case using Cons.IH by simp
qed

text \<open>
  C10. From a table in which every row is as \<open>get_user\<close> creates it, after any sequence of
  check-ins, profile queries, pings and join events, every row has
  \<open>balance = total_checkins * DAILY_REWARD\<close>.
\<close>

theorem balance_is_reward_times_checkins:
  assumes "\<forall>r\<in>set conn. r = new_row (user_id r)"
  shows "\<forall>r\<in>set (run conn evs). balance r = total_checkins r * DAILY_REWARD"
proof (rule ledger_invariant_run)
  show "\<forall>r\<in>set conn. balance r = total_checkins r * DAILY_REWARD"
  proof
    fix r assume "r \<in> set conn"
    with assms have e: "r = new_row (user_id r)" by blast
    have "balance (new_row (user_id r)) = 0 \<and> total_checkins (new_row (user_id r)) = 0"
      by (simp add: new_row_def)
    with e have "balance r = 0 \<and> total_checkins r = 0"
      by simp
    then show "balance r = total_checkins r * DAILY_REWARD" by simp
  qed
qed


lemma run_scenario: "run [new_row 7] scenario = [new_row 7, alice_row_after, march_row]"
  by (simp add: run_def scenario_def checkin_def profile_def ping_def on_member_join_def
      get_user_def ensure_user_def select_user_def Let_def update_checkin_def
      update_joined_at_def new_row_def alice_cmd_def alice_def bob_def bob_again_def
      helper_bot_def joined_str_of_def py_not_def DAILY_REWARD_def WELCOME_CHANNEL_ID_def
      isoformat_2024_01_01 isoformat_2024_01_02 isoformat_2024_03_01 isoformat_2024_03_05
      alice_row_after_def march_row_def
      del: One_nat_def)

theorem balance_is_reward_times_checkins_witness:
  "new_row 7 = new_row (user_id (new_row 7)) \<and>
   run [new_row 7] scenario = [new_row 7, alice_row_after, march_row] \<and>
   balance (new_row 7) = total_checkins (new_row 7) * DAILY_REWARD \<and>
   balance alice_row_after = total_checkins alice_row_after * DAILY_REWARD \<and>
   balance alice_row_after = 200000 \<and> total_checkins alice_row_after = 2 \<and>
   balance march_row = total_checkins march_row * DAILY_REWARD"
proof -
  have h: "\<forall>r\<in>set [new_row 7]. r = new_row (user_id r)"
    by (simp add: new_row_def)
  from balance_is_reward_times_checkins [OF h, of scenario] h
  show ?thesis
    unfolding run_scenario by (simp add: alice_row_after_def)
qed

subsection \<open>Dates as text\<close>

text \<open>
  Two dates of Python's range have the same ISO text only when they are the same date. So
  after a check-in on one day, \<open>last_checkin\<close> differs from the text of every other day,
  the next day included, and the check-in of that day is granted.
\<close>

lemma replicate_2: "replicate 2 x = [x, x]"
  by (simp add: numeral_2_eq_2)

lemma replicate_3: "replicate 3 x = [x, x, x]"
  by (simp add: numeral_3_eq_3)

lemma digit_char_0: "digit_char 0 = CHR ''0''"
  by (simp add: digit_char_def)

lemma digit_char_mod: "digit_char (n mod 10) = digit_char n"
  by (simp add: digit_char_def)

lemma digit_char_inj: "digit_char a = digit_char b \<Longrightarrow> a mod 10 = b mod 10"
proof -
  assume e: "digit_char a = digit_char b"
  have d: "distinct ''0123456789''" by simp
  have "a mod 10 < length ''0123456789''" "b mod 10 < length ''0123456789''" by simp_all
  with d e show ?thesis
    unfolding digit_char_def by (simp only: nth_eq_iff_index_eq)
qed

lemma str_nat_2: "n < 100 \<Longrightarrow> zero_pad 2 (str_nat n) = [digit_char (n div 10), digit_char n]"
proof (cases "n < 10")
  case True
  then show ?thesis by (simp add: str_nat_small zero_pad_def digit_char_0)
next
  case False
  assume "n < 100"
  then have "n div 10 < 10" by simp
  with False show ?thesis
    by (simp add: str_nat_big str_nat_small zero_pad_def digit_char_mod)
qed


lemma str_nat_4:
  assumes "n < 10000"
  shows "zero_pad 4 (str_nat n) =
           [digit_char (n div 1000), digit_char (n div 100), digit_char (n div 10), digit_char n]"
proof -
  consider "n < 10" | "10 \<le> n" "n < 100" | "100 \<le> n" "n < 1000" | "1000 \<le> n"
    by linarith
  then show ?thesis
  proof cases
    case 1
    then have s: "str_nat n = [digit_char n]" by (simp add: str_nat_small)
    from 1 have "n div 1000 = 0" "n div 100 = 0" "n div 10 = 0" by simp_all
    then show ?thesis by (simp add: s zero_pad_def digit_char_0 replicate_3)
  next
    case 2
    then have "n div 10 < 10" "\<not> n < 10" by simp_all
    then have s: "str_nat n = [digit_char (n div 10), digit_char n]"
      by (simp add: str_nat_big str_nat_small digit_char_mod)
    from 2 have "n div 1000 = 0" "n div 100 = 0" by simp_all
    then show ?thesis by (simp add: s zero_pad_def digit_char_0 replicate_2)
  next
    case 3
    then have a: "\<not> n < 10" "\<not> n div 10 < 10" "n div 100 < 10" by simp_all
    have d: "n div 10 div 10 = n div 100" by (simp add: div_mult2_eq [symmetric])
    have s: "str_nat n = [digit_char (n div 100), digit_char (n div 10), digit_char n]"
      using a by (simp add: str_nat_big [of n] str_nat_big [of "n div 10"]
          str_nat_small [of "n div 100"] digit_char_mod d)
    from 3 have "n div 1000 = 0" by simp
    then show ?thesis by (simp add: s zero_pad_def digit_char_0)
  next
    case 4
    then have a: "\<not> n < 10" "\<not> n div 10 < 10" "\<not> n div 100 < 10"
      "n div 1000 < 10"
      using assms by simp_all
    have d: "n div 10 div 10 = n div 100" "n div 100 div 10 = n div 1000"
      by (simp_all add: div_mult2_eq [symmetric])
    have s: "str_nat n =
        [digit_char (n div 1000), digit_char (n div 100), digit_char (n div 10), digit_char n]"
      using a by (simp add: str_nat_big [of n] str_nat_big [of "n div 10"]
          str_nat_big [of "n div 100"] str_nat_small [of "n div 1000"]
          digit_char_mod d)
    show ?thesis by (simp add: s zero_pad_def)
  qed
qed

lemma digits_eq: "(n::nat) div 10 = m div 10 \<Longrightarrow> n mod 10 = m mod 10 \<Longrightarrow> n = m"
  by (metis div_mult_mod_eq)

lemma two_digits:
  assumes "(n::nat) < 100" and "m < 100"
    and "(n div 10) mod 10 = (m div 10) mod 10" and "n mod 10 = m mod 10"
  shows "n = m"
proof -
  from assms(1,2) have "n div 10 < 10" "m div 10 < 10" by simp_all
  with assms(3) have "n div 10 = m div 10" by simp
  then show ?thesis using assms(4) by (rule digits_eq)
qed

lemma four_digits:
  assumes "(n::nat) < 10000" and "m < 10000"
    and "(n div 1000) mod 10 = (m div 1000) mod 10"
    and "(n div 100) mod 10 = (m div 100) mod 10"
    and "(n div 10) mod 10 = (m div 10) mod 10" and "n mod 10 = m mod 10"
  shows "n = m"
proof -
  from assms(1,2) have "n div 1000 < 10" "m div 1000 < 10" by simp_all
  with assms(3) have "n div 1000 = m div 1000" by simp
  then have "(n div 100) div 10 = (m div 100) div 10"
    by (simp add: div_mult2_eq [symmetric])
  then have "n div 100 = m div 100" using assms(4) by (rule digits_eq)
  then have "(n div 10) div 10 = (m div 10) div 10"
    by (simp add: div_mult2_eq [symmetric])
  then have "n div 10 = m div 10" using assms(5) by (rule digits_eq)
  then show ?thesis using assms(6) by (rule digits_eq)
qed


lemma isoformat_digits:
  assumes "date_in_range d"
  shows "isoformat d =
    [digit_char (year d div 1000), digit_char (year d div 100), digit_char (year d div 10),
     digit_char (year d), CHR ''-'', digit_char (month d div 10), digit_char (month d),
     CHR ''-'', digit_char (day d div 10), digit_char (day d)]"
proof -
  from assms have "year d < 10000" "month d < 100" "day d < 100"
    by (simp_all add: date_in_range_def)
  then show ?thesis
    by (simp add: isoformat_def str_nat_2 str_nat_4)
qed

lemma isoformat_inj:
  assumes "date_in_range d" and "date_in_range d'" and "isoformat d = isoformat d'"
  shows "d = d'"
proof -
  from assms(1,2) have b: "year d < 10000" "month d < 100" "day d < 100"
    "year d' < 10000" "month d' < 100" "day d' < 100"
    by (simp_all add: date_in_range_def)
  from assms(3) have e:
    "digit_char (year d div 1000) = digit_char (year d' div 1000)"
    "digit_char (year d div 100) = digit_char (year d' div 100)"
    "digit_char (year d div 10) = digit_char (year d' div 10)"
    "digit_char (year d) = digit_char (year d')"
    "digit_char (month d div 10) = digit_char (month d' div 10)"
    "digit_char (month d) = digit_char (month d')"
    "digit_char (day d div 10) = digit_char (day d' div 10)"
    "digit_char (day d) = digit_char (day d')"
    unfolding isoformat_digits [OF assms(1)] isoformat_digits [OF assms(2)] by simp_all
  have "year d = year d'"
    using b(1,4) e(1-4) [THEN digit_char_inj] by (rule four_digits)
  moreover have "month d = month d'"
    using b(2,5) e(5,6) [THEN digit_char_inj] by (rule two_digits)
  moreover have "day d = day d'"
    using b(3,6) e(7,8) [THEN digit_char_inj] by (rule two_digits)
  ultimately show ?thesis by (simp add: date.expand)
qed

lemma checked_in_other_day:
  assumes "date_in_range d" and "date_in_range d'" and "d \<noteq> d'"
    and "last_checkin r = Some (isoformat d)"
  shows "last_checkin r \<noteq> Some (isoformat d')"
  using assms isoformat_inj by auto

subsection \<open>The stored join date\<close>

text \<open>
  The tables the bot builds: the form \<open>joined_dates_ok\<close> holds of the empty table and of
  fresh rows and is kept by every handler, so by every run.
\<close>

lemma joined_dates_ok_ensure_user:
  "joined_dates_ok conn \<Longrightarrow> joined_dates_ok (ensure_user conn uid)"
  by (auto simp: joined_dates_ok_def ensure_user_def new_row_def split: option.splits)

lemma joined_dates_ok_handle:
  assumes "joined_dates_ok conn"
  shows "joined_dates_ok (handle conn ev)"
proof (cases ev)
  case (MemberJoin m)
  let ?c = "ensure_user conn (u_id m)"
  obtain r where r: "select_user ?c (u_id m) = Some r"
    using get_user_total by blast
  have c: "joined_dates_ok ?c"
    using assms by (rule joined_dates_ok_ensure_user)
  show ?thesis
  proof (cases "m_bot m")
    case True
    with assms MemberJoin show ?thesis by (simp add: on_member_join_def)
  next
    case False
    from c joined_str_of_nonempty [of m] show ?thesis
      unfolding MemberJoin handle.simps fst_on_member_join_row [OF False r]
      by (auto simp: joined_dates_ok_def update_joined_at_def)
  qed
next
  case (Checkin d i)
  let ?c = "ensure_user conn (u_id (user i))"
  obtain r where r: "select_user ?c (u_id (user i)) = Some r"
    using get_user_total by blast
  have c: "joined_dates_ok ?c"
    using assms by (rule joined_dates_ok_ensure_user)
  then show ?thesis
    unfolding Checkin handle.simps fst_checkin [OF r]
    by (auto simp: joined_dates_ok_def update_checkin_def)
next
  case (Profile i)
  with assms show ?thesis
    by (simp add: fst_profile joined_dates_ok_ensure_user)
next
  case (Ping i)
  with assms show ?thesis by (simp add: fst_ping)
qed

lemma joined_dates_ok_run: "joined_dates_ok conn \<Longrightarrow> joined_dates_ok (run conn evs)"
  unfolding run_def
proof (induction evs arbitrary: conn)
  case Nil
  then show ?case by simp
next
  case (Cons ev evs)
  from Cons.prems have "joined_dates_ok (handle conn ev)"
    by (rule joined_dates_ok_handle)
  then show ?case using Cons.IH by simp
qed

lemma select_user_ensure_user_keep:
  "select_user conn uid = Some r \<Longrightarrow> select_user (ensure_user conn u) uid = Some r"
  by (cases "uid = u") (simp_all add: select_user_ensure_user_same select_user_ensure_user_other)

lemma select_user_on_member_join_other:
  assumes "uid \<noteq> u_id m"
  shows "select_user (fst (on_member_join conn m)) uid = select_user conn uid"
proof (cases "m_bot m")
  case True
  then show ?thesis by (simp add: on_member_join_def)
next
  case False
  obtain r where r: "select_user (ensure_user conn (u_id m)) (u_id m) = Some r"
    using get_user_total by blast
  show ?thesis
    using assms
    by (simp add: fst_on_member_join_row [OF False r] select_user_update_joined_at
        select_user_ensure_user_other)
qed

lemma on_member_join_nonnull:
  assumes "joined_dates_ok conn" and "select_user conn (u_id m) = Some r"
    and "joined_at r \<noteq> None"
  shows "fst (on_member_join conn m) = conn"
proof (cases "m_bot m")
  case True
  then show ?thesis by (simp add: on_member_join_def)
next
  case False
  from assms(2) have "r \<in> set conn" using select_user_Some by blast
  with assms(1) have "joined_at r \<noteq> Some []" by (auto simp: joined_dates_ok_def)
  with assms(3) have "\<not> py_not (joined_at r)" by (simp add: py_not_iff)
  with fst_on_member_join [OF False get_user_existing [OF assms(2)]]
  show ?thesis by simp
qed

lemma on_member_join_keeps_rows:
  assumes "joined_dates_ok conn" and "select_user conn uid = Some r" and "joined_at r \<noteq> None"
  shows "select_user (fst (on_member_join conn m)) uid = Some r"
proof (cases "uid = u_id m")
  case True
  with assms show ?thesis by (simp add: on_member_join_nonnull)
next
  case False
  with assms(2) show ?thesis by (simp add: select_user_on_member_join_other)
qed

lemma on_member_join_twice:
  assumes "\<not> m_bot m" and "\<not> m_bot m2" and "u_id m2 = u_id m"
  shows "fst (on_member_join (fst (on_member_join conn m)) m2) = fst (on_member_join conn m)"
proof -
  let ?c = "fst (on_member_join conn m)"
  obtain r where r: "select_user (ensure_user conn (u_id m)) (u_id m) = Some r"
    using get_user_total by blast
  note f = fst_on_member_join_row [OF assms(1) r]
  obtain r' where r': "select_user ?c (u_id m) = Some r'" and ne: "\<not> py_not (joined_at r')"
    using f r joined_str_of_nonempty [of m]
    by (cases "py_not (joined_at r)") (auto simp: select_user_update_joined_at py_not_def)
  have "get_user ?c (u_id m2) = (?c, Some r')"
    using assms(3) r' by (simp add: get_user_existing)
  from fst_on_member_join [OF assms(2) this] ne
  show ?thesis by simp
qed

lemma joined_at_kept_handle:
  assumes "joined_dates_ok conn" and "select_user conn uid = Some r" and "joined_at r = Some d"
  shows "\<exists>r'. select_user (handle conn ev) uid = Some r' \<and> joined_at r' = Some d"
proof (cases ev)
  case (MemberJoin m)
  from assms have "select_user (fst (on_member_join conn m)) uid = Some r"
    by (simp add: on_member_join_keeps_rows)
  with assms(3) MemberJoin show ?thesis by simp
next
  case (Checkin t i)
  let ?c = "ensure_user conn (u_id (user i))"
  obtain q where q: "select_user ?c (u_id (user i)) = Some q"
    using get_user_total by blast
  have k: "select_user ?c uid = Some r"
    using assms(2) by (rule select_user_ensure_user_keep)
  show ?thesis
    using assms(3) k
    by (auto simp: Checkin fst_checkin [OF q] select_user_update_checkin)
next
  case (Profile i)
  with assms show ?thesis
    by (simp add: fst_profile select_user_ensure_user_keep)
next
  case (Ping i)
  with assms show ?thesis by (simp add: fst_ping)
qed

lemma joined_at_kept_run:
  assumes "joined_dates_ok conn" and "select_user conn uid = Some r" and "joined_at r = Some d"
  shows "\<exists>r'. select_user (run conn evs) uid = Some r' \<and> joined_at r' = Some d"
  using assms unfolding run_def
proof (induction evs arbitrary: conn r)
  case Nil
  then show ?case by simp
next
  case (Cons ev evs)
  from Cons.prems obtain r' where
    r': "select_user (handle conn ev) uid = Some r'" "joined_at r' = Some d"
    using joined_at_kept_handle by blast
  from Cons.prems(1) have "joined_dates_ok (handle conn ev)"
    by (rule joined_dates_ok_handle)
  from Cons.IH [OF this r'] show ?case by simp
qed


text \<open>
  C5. In a table that a run of the bot has built, a join event of a member who is not a bot
  leaves every row with a non-null \<open>joined_at\<close> as it is, whoever the user, and when the
  joining user's own \<open>joined_at\<close> is non-null it leaves the whole table as it is. It touches
  no row of another user. It stores the observed date only when the joining user's
  \<open>joined_at\<close> is NULL; a second join event of the same user, whatever its date, then
  changes nothing, so the first date stays. And no later event of any kind changes a
  \<open>joined_at\<close> that is non-null.
\<close>

theorem joined_at_immutable:
  assumes "joined_dates_ok conn0" and "conn = run conn0 evs" and "\<not> m_bot m"
  shows "(\<forall>uid r. select_user conn uid = Some r \<and> joined_at r \<noteq> None \<longrightarrow>
            select_user (fst (on_member_join conn m)) uid = Some r) \<and>
         (\<forall>r. select_user conn (u_id m) = Some r \<and> joined_at r \<noteq> None \<longrightarrow>
            fst (on_member_join conn m) = conn) \<and>
         (\<forall>uid. uid \<noteq> u_id m \<longrightarrow>
            select_user (fst (on_member_join conn m)) uid = select_user conn uid) \<and>
         (\<forall>r. snd (get_user conn (u_id m)) = Some r \<and> joined_at r = None \<longrightarrow>
            select_user (fst (on_member_join conn m)) (u_id m) =
              Some (r\<lparr>joined_at := Some (joined_str_of m)\<rparr>)) \<and>
         (\<forall>m2::member. \<not> m_bot m2 \<and> u_id m2 = u_id m \<longrightarrow>
            fst (on_member_join (fst (on_member_join conn m)) m2) = fst (on_member_join conn m)) \<and>
         (\<forall>uid r d evs'. select_user conn uid = Some r \<and> joined_at r = Some d \<longrightarrow>
            map_option joined_at (select_user (run conn evs') uid) = Some (Some d))"
proof (intro conjI allI impI)
  have ok: "joined_dates_ok conn"
    unfolding assms(2) using assms(1) by (rule joined_dates_ok_run)
  {
    fix uid r assume "select_user conn uid = Some r \<and> joined_at r \<noteq> None"
    with ok show "select_user (fst (on_member_join conn m)) uid = Some r"
      by (simp add: on_member_join_keeps_rows)
  }
  {
    fix r assume "select_user conn (u_id m) = Some r \<and> joined_at r \<noteq> None"
    with ok show "fst (on_member_join conn m) = conn"
      by (simp add: on_member_join_nonnull)
  }
  {
    fix uid assume "uid \<noteq> u_id m"
    then show "select_user (fst (on_member_join conn m)) uid = select_user conn uid"
      by (rule select_user_on_member_join_other)
  }
  {
    fix r assume a: "snd (get_user conn (u_id m)) = Some r \<and> joined_at r = None"
    then have r: "select_user (ensure_user conn (u_id m)) (u_id m) = Some r"
      by (simp add: snd_get_user)
    from a have "py_not (joined_at r)" by (simp add: py_not_def)
    then show "select_user (fst (on_member_join conn m)) (u_id m) =
              Some (r\<lparr>joined_at := Some (joined_str_of m)\<rparr>)"
      by (simp add: fst_on_member_join_row [OF assms(3) r] select_user_update_joined_at r)
  }
  {
    fix m2 :: member assume "\<not> m_bot m2 \<and> u_id m2 = u_id m"
    with assms(3)
    show "fst (on_member_join (fst (on_member_join conn m)) m2) = fst (on_member_join conn m)"
      by (simp add: on_member_join_twice)
  }
  {
    fix uid r d evs'
    assume "select_user conn uid = Some r \<and> joined_at r = Some d"
    with ok obtain r' where "select_user (run conn evs') uid = Some r'" "joined_at r' = Some d"
      using joined_at_kept_run by blast
    then show "map_option joined_at (select_user (run conn evs') uid) = Some (Some d)"
      by simp
  }
qed

theorem joined_at_immutable_witness:
  "joined_dates_ok [new_row 7] \<and> \<not> m_bot bob \<and> \<not> m_bot bob_again \<and> u_id bob_again = u_id bob \<and>
   run [new_row 7] scenario = [new_row 7, alice_row_after, march_row] \<and>
   select_user (run [new_row 7] scenario) (u_id bob_again) = Some march_row \<and>
   joined_at march_row = Some ''2024-03-01'' \<and>
   fst (on_member_join (run [new_row 7] scenario) bob_again) = run [new_row 7] scenario \<and>
   select_user (fst (on_member_join (run [new_row 7] scenario) bob_again)) 42 =
     Some alice_row_after \<and>
   map_option joined_at
     (select_user (run (run [new_row 7] scenario) [MemberJoin bob_again, Profile alice_cmd]) 99) =
     Some (Some ''2024-03-01'') \<and>
   snd (get_user (run [new_row 7] []) (u_id bob)) = Some (new_row 99) \<and>
   joined_at (new_row 99) = None \<and>
   select_user (fst (on_member_join (run [new_row 7] []) bob)) (u_id bob) = Some march_row \<and>
   select_user (fst (on_member_join (run [new_row 7] []) bob)) 7 = Some (new_row 7) \<and>
   fst (on_member_join (fst (on_member_join (run [new_row 7] []) bob)) bob_again) =
     fst (on_member_join (run [new_row 7] []) bob)"
proof -
  let ?c = "run [new_row 7] scenario"
  let ?e = "run [new_row 7] []"
  have ok: "joined_dates_ok [new_row 7]"
    by (simp add: joined_dates_ok_def new_row_def)
  have nb: "\<not> m_bot bob" and nb2: "\<not> m_bot bob_again" and u2: "u_id bob_again = u_id bob"
    and u: "u_id bob = 99"
    by (simp_all add: bob_again_def bob_def)
  have e: "?e = [new_row 7]" by (simp add: run_def)
  have s99: "select_user ?c (u_id bob_again) = Some march_row"
    unfolding run_scenario u2 u
    by (simp add: select_user_def new_row_def alice_row_after_def march_row_def)
  have s42: "select_user ?c 42 = Some alice_row_after"
    unfolding run_scenario
    by (simp add: select_user_def new_row_def alice_row_after_def)
  have s7: "select_user ?e 7 = Some (new_row 7)"
    unfolding e by (simp add: select_user_def new_row_def)
  have j1: "joined_at march_row = Some ''2024-03-01''"
    by (simp add: march_row_def)
  have g2: "snd (get_user ?e (u_id bob)) = Some (new_row 99)"
    unfolding u e snd_get_user
    by (simp add: ensure_user_def select_user_def new_row_def)
  have j2: "joined_at (new_row 99) = None"
    by (simp add: new_row_def)
  have mj: "m_joined_at bob = Some (Date 2024 3 1)"
    by (simp add: bob_def)
  have js: "joined_str_of bob = ''2024-03-01''"
    by (simp only: joined_str_of_def mj option.case isoformat_2024_03_01)
  have m: "new_row 99\<lparr>joined_at := Some ''2024-03-01''\<rparr> = march_row"
    by (simp add: new_row_def march_row_def)
  have n42: "(42::int) \<noteq> u_id bob_again" and n7: "(7::int) \<noteq> u_id bob"
    by (simp_all add: u2 u)
  note k1 = joined_at_immutable [OF ok refl nb2, of scenario]
  note k2 = joined_at_immutable [OF ok refl nb, of "[]"]
  from k1 s99 j1 have a: "fst (on_member_join ?c bob_again) = ?c"
    by simp
  from k1 n42 have "select_user (fst (on_member_join ?c bob_again)) 42 = select_user ?c 42"
    by blast
  with s42 have b: "select_user (fst (on_member_join ?c bob_again)) 42 = Some alice_row_after"
    by simp
  from k1 s99 j1 have c: "map_option joined_at
     (select_user (run ?c [MemberJoin bob_again, Profile alice_cmd]) 99) =
     Some (Some ''2024-03-01'')"
    unfolding u2 u by blast
  from k2 g2 j2 have "select_user (fst (on_member_join ?e bob)) (u_id bob) =
      Some (new_row 99\<lparr>joined_at := Some (joined_str_of bob)\<rparr>)"
    by blast
  then have d: "select_user (fst (on_member_join ?e bob)) (u_id bob) = Some march_row"
    by (simp add: js m)
  from k2 n7 have "select_user (fst (on_member_join ?e bob)) 7 = select_user ?e 7"
    by blast
  with s7 have f: "select_user (fst (on_member_join ?e bob)) 7 = Some (new_row 7)"
    by simp
  from k2 nb2 u2
  have g: "fst (on_member_join (fst (on_member_join ?e bob)) bob_again) =
      fst (on_member_join ?e bob)"
    by blast
  from ok nb nb2 u2 run_scenario s99 j1 a b c g2 j2 d f g show ?thesis
    by blast
qed

end
